theory Spec2Isabelle
  imports Main
begin

section \<open>Live auction bidding service (src/server/services/socketService.js)\<close>

text \<open>
  The service keeps one module-level object \<open>auctionState\<close> and one object
  \<open>connectedSockets\<close> with two JavaScript Maps keyed by \<open>socket.id\<close>. Every
  \<open>socket.on(...)\<close> handler is modelled as a function from the server state, the
  socket that sent the event and the event's payload to the list of emissions
  (in the order the handler emits them), the state after the handler, and the
  exception the handler raised, if any. Log lines (\<open>console.log\<close>) are not
  modelled, except where evaluating their argument raises.

  Amounts are JavaScript numbers in the source. The handlers only compare and copy
  them, so they are modelled as integers (\<open>NaN\<close> and values that are not numbers
  are outside the model). Every event carries a payload object; a field of it that
  the handler defaults when it is missing is an \<open>option\<close>, and \<open>x || d\<close> is
  \<open>js_or\<close>. A socket is in the room \<open>bidders\<close> or \<open>clerks\<close> from its registration
  to its disconnect, which is when it is in the Map of that role.
\<close>

subsection \<open>Data\<close>

type_synonym sid = string
type_synonym money = int

record lot =
  number :: int
  description :: string

datatype bid_status = Pending | Accepted | Rejected

text \<open>The bid record of \<open>bid:submit\<close>; the field \<open>id\<close> is \<open>bid_id\<close> here.\<close>

record bid =
  bid_id :: string
  bidderId :: string
  bidderName :: string
  amount :: money
  lotNumber :: "int option"
  timestamp :: string
  status :: bid_status
  isOnline :: bool

text \<open>
  The values stored in \<open>connectedSockets.bidders\<close> and \<open>connectedSockets.clerks\<close>.
  Their \<open>socket\<close> field is the socket the entry is stored under, so the key stands
  for it.
\<close>

record bidder_conn =
  conn_bidderId :: string
  conn_name :: string

record clerk_conn =
  conn_clerkId :: string
  clerk_name :: string

text \<open>
  A JavaScript Map keeps its entries in insertion order; \<open>set\<close> on a key that is
  present replaces the value in place, on a new key it appends.
\<close>

type_synonym ('k, 'v) js_map = "('k \<times> 'v) list"

fun js_set :: "'k \<Rightarrow> 'v \<Rightarrow> ('k, 'v) js_map \<Rightarrow> ('k, 'v) js_map" where
  "js_set k v [] = [(k, v)]"
| "js_set k v (e # m) = (if fst e = k then (k, v) # m else e # js_set k v m)"

definition js_get :: "'k \<Rightarrow> ('k, 'v) js_map \<Rightarrow> 'v option" where
  "js_get k m = map_of m k"

definition js_has :: "'k \<Rightarrow> ('k, 'v) js_map \<Rightarrow> bool" where
  "js_has k m = (map_of m k \<noteq> None)"

definition js_delete :: "'k \<Rightarrow> ('k, 'v) js_map \<Rightarrow> ('k, 'v) js_map" where
  "js_delete k m = filter (\<lambda>e. fst e \<noteq> k) m"

definition js_size :: "('k, 'v) js_map \<Rightarrow> nat" where
  "js_size m = length m"

record connected_clients =
  n_bidders :: nat
  n_clerks :: nat

record auction_state =
  isLive :: bool
  currentLot :: "lot option"
  currentBid :: money
  bidIncrement :: money
  onlineBids :: "bid list"
  connectedClients :: connected_clients

record connected_sockets =
  bidders :: "(sid, bidder_conn) js_map"
  clerks :: "(sid, clerk_conn) js_map"

record server =
  auctionState :: auction_state
  connectedSockets :: connected_sockets

definition init :: server where
  "init = \<lparr> auctionState = \<lparr> isLive = False, currentLot = None, currentBid = 0,
                bidIncrement = 5, onlineBids = [],
                connectedClients = \<lparr> n_bidders = 0, n_clerks = 0 \<rparr> \<rparr>,
            connectedSockets = \<lparr> bidders = [], clerks = [] \<rparr> \<rparr>"

subsection \<open>Emissions\<close>

text \<open>The object returned by \<open>getPublicAuctionState\<close>.\<close>

record public_state =
  pub_isLive :: bool
  pub_currentLot :: "lot option"
  pub_currentBid :: money
  pub_bidIncrement :: money
  pub_onlineBidders :: nat

text \<open>
  The three messages of \<open>bid:error\<close>: "Not registered as bidder", "Auction is not
  currently live" and "Bid must be higher than current bid of $N".
\<close>

datatype bid_error = NotRegisteredAsBidder | AuctionNotLive | BidTooLow money

record sold_info =
  sold_lot :: "lot option"
  winningBid :: money
  winner :: string
  sold_isOnline :: bool
  sold_timestamp :: string

datatype payload =
    AuctionStateEv public_state
  | BiddersCount nat
  | AuctionFullState auction_state
  | BidError bid_error
  | BidConfirmed string bid
  | BidNew bid
  | ErrorEv string
  | AuctionStarted "lot option" money money
  | AuctionLotChanged "lot option" money
  | AuctionBidUpdate money string "string option"
  | BidAcceptedEv bid
  | BidRejectedEv bid "string option"
  | AuctionLotSold sold_info
  | AuctionEnded string

datatype room = BiddersRoom | ClerksRoom

text \<open>
  \<open>socket.emit\<close> reaches that socket only, \<open>io.to(room).emit\<close> the sockets that
  joined the room, \<open>io.emit\<close> every connected socket.
\<close>

datatype audience = ToSocket sid | ToRoom room | ToAll

type_synonym emission = "audience \<times> payload"

datatype error = TypeError

type_synonym result = "emission list \<times> server \<times> error option"

definition emitted :: "result \<Rightarrow> emission list" where
  "emitted r = fst r"

definition state_of :: "result \<Rightarrow> server" where
  "state_of r = fst (snd r)"

definition raised :: "result \<Rightarrow> error option" where
  "raised r = snd (snd r)"

subsection \<open>Helpers of the handlers\<close>

text \<open>\<open>x || d\<close> on a number that may be missing: missing and 0 are falsy.\<close>

definition js_or :: "int option \<Rightarrow> int \<Rightarrow> int" where
  "js_or x d = (case x of None \<Rightarrow> d | Some v \<Rightarrow> if v = 0 then d else v)"

text \<open>\<open>data.source || 'floor'\<close>: missing and the empty string are falsy.\<close>

definition source_or_floor :: "string option \<Rightarrow> string" where
  "source_or_floor x = (case x of None \<Rightarrow> ''floor'' | Some v \<Rightarrow> if v = [] then ''floor'' else v)"

text \<open>\<open>Array.prototype.findIndex\<close>: the first index whose element satisfies, or -1.\<close>

fun findIndex :: "('a \<Rightarrow> bool) \<Rightarrow> 'a list \<Rightarrow> int" where
  "findIndex P [] = - 1"
| "findIndex P (x # xs) =
     (if P x then 0 else (let i = findIndex P xs in if i = - 1 then - 1 else i + 1))"

text \<open>The decimal text of \<open>Date.now()\<close> inside the template \<open>bid_${Date.now()}\<close>.\<close>

definition digit :: "nat \<Rightarrow> char" where
  "digit d = ''0123456789'' ! d"

fun dec :: "nat \<Rightarrow> string" where
  "dec n = (if n < 10 then [digit n] else dec (n div 10) @ [digit (n mod 10)])"

declare dec.simps [simp del]

definition getPublicAuctionState :: "auction_state \<Rightarrow> public_state" where
  "getPublicAuctionState a =
     \<lparr> pub_isLive = isLive a,
       pub_currentLot = currentLot a,
       pub_currentBid = currentBid a,
       pub_bidIncrement = bidIncrement a,
       pub_onlineBidders = n_bidders (connectedClients a) \<rparr>"

text \<open>
  \<open>Array.from(connectedSockets.bidders.values()).find(b => b.bidderId === id)\<close>:
  the first entry, in insertion order, registered under that bidder id.
\<close>

definition find_bidder :: "string \<Rightarrow> (sid, bidder_conn) js_map \<Rightarrow> (sid \<times> bidder_conn) option" where
  "find_bidder i m = find (\<lambda>e. conn_bidderId (snd e) = i) m"

text \<open>The guard \<open>connectedSockets.clerks.has(socket.id)\<close> of the clerk's commands.\<close>

definition is_clerk :: "server \<Rightarrow> sid \<Rightarrow> bool" where
  "is_clerk s sock = js_has sock (clerks (connectedSockets s))"

subsection \<open>Registration and disconnect\<close>

definition on_register_bidder :: "server \<Rightarrow> sid \<Rightarrow> string \<Rightarrow> string \<Rightarrow> result" where
  "on_register_bidder s sock bidder_id nm =
     (let cs = connectedSockets s;
          bs = js_set sock \<lparr> conn_bidderId = bidder_id, conn_name = nm \<rparr> (bidders cs);
          a = auctionState s;
          a' = a \<lparr> connectedClients := (connectedClients a) \<lparr> n_bidders := js_size bs \<rparr> \<rparr>
      in ([(ToSocket sock, AuctionStateEv (getPublicAuctionState a')),
           (ToRoom ClerksRoom, BiddersCount (n_bidders (connectedClients a')))],
          \<lparr> auctionState = a', connectedSockets = cs \<lparr> bidders := bs \<rparr> \<rparr>,
          None))"

definition on_register_clerk :: "server \<Rightarrow> sid \<Rightarrow> string \<Rightarrow> string \<Rightarrow> result" where
  "on_register_clerk s sock clerk_id nm =
     (let cs = connectedSockets s;
          ks = js_set sock \<lparr> conn_clerkId = clerk_id, clerk_name = nm \<rparr> (clerks cs);
          a = auctionState s;
          a' = a \<lparr> connectedClients := (connectedClients a) \<lparr> n_clerks := js_size ks \<rparr> \<rparr>
      in ([(ToSocket sock, AuctionFullState a')],
          \<lparr> auctionState = a', connectedSockets = cs \<lparr> clerks := ks \<rparr> \<rparr>,
          None))"

text \<open>
  The two removals of \<open>disconnect\<close> are two separate \<open>if\<close>s, run one after the
  other.
\<close>

definition disconnect_bidder :: "server \<Rightarrow> sid \<Rightarrow> emission list \<times> server" where
  "disconnect_bidder s sock =
     (let cs = connectedSockets s; a = auctionState s
      in if js_has sock (bidders cs)
         then (let bs = js_delete sock (bidders cs);
                   a' = a \<lparr> connectedClients := (connectedClients a) \<lparr> n_bidders := js_size bs \<rparr> \<rparr>
               in ([(ToRoom ClerksRoom, BiddersCount (n_bidders (connectedClients a')))],
                   \<lparr> auctionState = a', connectedSockets = cs \<lparr> bidders := bs \<rparr> \<rparr>))
         else ([], s))"

definition disconnect_clerk :: "server \<Rightarrow> sid \<Rightarrow> server" where
  "disconnect_clerk s sock =
     (let cs = connectedSockets s; a = auctionState s
      in if js_has sock (clerks cs)
         then (let ks = js_delete sock (clerks cs);
                   a' = a \<lparr> connectedClients := (connectedClients a) \<lparr> n_clerks := js_size ks \<rparr> \<rparr>
               in \<lparr> auctionState = a', connectedSockets = cs \<lparr> clerks := ks \<rparr> \<rparr>)
         else s)"

definition on_disconnect :: "server \<Rightarrow> sid \<Rightarrow> result" where
  "on_disconnect s sock =
     (let (es, s1) = disconnect_bidder s sock in (es, disconnect_clerk s1 sock, None))"

subsection \<open>Bidding\<close>

text \<open>
  \<open>now\<close> is the value of \<open>Date.now()\<close> and \<open>ts\<close> the text of
  \<open>new Date().toISOString()\<close> when the handler runs.
\<close>

definition new_bid :: "auction_state \<Rightarrow> bidder_conn \<Rightarrow> nat \<Rightarrow> string \<Rightarrow> money \<Rightarrow> bid" where
  "new_bid a bidder now ts amt =
     \<lparr> bid_id = ''bid_'' @ dec now,
       bidderId = conn_bidderId bidder,
       bidderName = conn_name bidder,
       amount = amt,
       lotNumber = map_option number (currentLot a),
       timestamp = ts,
       status = Pending,
       isOnline = True \<rparr>"

definition on_bid_submit :: "server \<Rightarrow> sid \<Rightarrow> nat \<Rightarrow> string \<Rightarrow> money \<Rightarrow> result" where
  "on_bid_submit s sock now ts amt =
     (let a = auctionState s
      in case js_get sock (bidders (connectedSockets s)) of
           None \<Rightarrow> ([(ToSocket sock, BidError NotRegisteredAsBidder)], s, None)
         | Some bidder \<Rightarrow>
             if \<not> isLive a then ([(ToSocket sock, BidError AuctionNotLive)], s, None)
             else if amt \<le> currentBid a
             then ([(ToSocket sock, BidError (BidTooLow (currentBid a)))], s, None)
             else (let b = new_bid a bidder now ts amt
                   in ([(ToSocket sock, BidConfirmed ''Bid submitted - waiting for auctioneer'' b),
                        (ToRoom ClerksRoom, BidNew b)],
                       s \<lparr> auctionState := a \<lparr> onlineBids := onlineBids a @ [b] \<rparr> \<rparr>,
                       None)))"

subsection \<open>Auction control\<close>

definition on_auction_start ::
  "server \<Rightarrow> sid \<Rightarrow> lot option \<Rightarrow> money option \<Rightarrow> money option \<Rightarrow> result" where
  "on_auction_start s sock l starting inc =
     (if \<not> is_clerk s sock then ([(ToSocket sock, ErrorEv ''Unauthorized'')], s, None)
      else (let a' = (auctionState s) \<lparr> isLive := True, currentLot := l,
                        currentBid := js_or starting 0, bidIncrement := js_or inc 5,
                        onlineBids := [] \<rparr>
            in ([(ToAll, AuctionStarted (currentLot a') (currentBid a') (bidIncrement a'))],
                s \<lparr> auctionState := a' \<rparr>,
                None)))"

text \<open>
  \<open>auction:setLot\<close> stores \<open>data.lot\<close> as it is; its log line reads
  \<open>data.lot.number\<close> after the broadcast, which raises when there is no lot.
\<close>

definition on_auction_setLot :: "server \<Rightarrow> sid \<Rightarrow> lot option \<Rightarrow> money option \<Rightarrow> result" where
  "on_auction_setLot s sock l starting =
     (if \<not> is_clerk s sock then ([], s, None)
      else (let a' = (auctionState s) \<lparr> currentLot := l, currentBid := js_or starting 0,
                        onlineBids := [] \<rparr>
            in ([(ToAll, AuctionLotChanged (currentLot a') (currentBid a'))],
                s \<lparr> auctionState := a' \<rparr>,
                (case l of None \<Rightarrow> Some TypeError | Some _ \<Rightarrow> None))))"

definition on_auction_updateBid :: "server \<Rightarrow> sid \<Rightarrow> money \<Rightarrow> string option \<Rightarrow> result" where
  "on_auction_updateBid s sock amt src =
     (if \<not> is_clerk s sock then ([], s, None)
      else (let a' = (auctionState s) \<lparr> currentBid := amt \<rparr>
            in ([(ToAll, AuctionBidUpdate (currentBid a') (source_or_floor src) None)],
                s \<lparr> auctionState := a' \<rparr>,
                None)))"

text \<open>
  \<open>bid:accept\<close> and \<open>bid:reject\<close> look the bid up by id alone and write the new
  status into the element of \<open>onlineBids\<close> itself.
\<close>

definition on_bid_accept :: "server \<Rightarrow> sid \<Rightarrow> string \<Rightarrow> result" where
  "on_bid_accept s sock bidId =
     (if \<not> is_clerk s sock then ([], s, None)
      else (let a = auctionState s;
                bidIndex = findIndex (\<lambda>b. bid_id b = bidId) (onlineBids a)
            in if bidIndex \<noteq> - 1
               then (let b = (onlineBids a ! nat bidIndex) \<lparr> status := Accepted \<rparr>;
                         a' = a \<lparr> onlineBids := (onlineBids a) [nat bidIndex := b],
                                  currentBid := amount b \<rparr>
                     in ((case find_bidder (bidderId b) (bidders (connectedSockets s)) of
                            None \<Rightarrow> []
                          | Some e \<Rightarrow> [(ToSocket (fst e), BidAcceptedEv b)])
                         @ [(ToAll, AuctionBidUpdate (currentBid a') ''online'' (Some (bidderName b)))],
                         s \<lparr> auctionState := a' \<rparr>,
                         None))
               else ([], s, None)))"

definition on_bid_reject :: "server \<Rightarrow> sid \<Rightarrow> string \<Rightarrow> string option \<Rightarrow> result" where
  "on_bid_reject s sock bidId reason =
     (if \<not> is_clerk s sock then ([], s, None)
      else (let a = auctionState s;
                bidIndex = findIndex (\<lambda>b. bid_id b = bidId) (onlineBids a)
            in if bidIndex \<noteq> - 1
               then (let b = (onlineBids a ! nat bidIndex) \<lparr> status := Rejected \<rparr>;
                         a' = a \<lparr> onlineBids := (onlineBids a) [nat bidIndex := b] \<rparr>
                     in ((case find_bidder (bidderId b) (bidders (connectedSockets s)) of
                            None \<Rightarrow> []
                          | Some e \<Rightarrow> [(ToSocket (fst e), BidRejectedEv b reason)]),
                         s \<lparr> auctionState := a' \<rparr>,
                         None))
               else ([], s, None)))"

definition on_auction_sold ::
  "server \<Rightarrow> sid \<Rightarrow> string \<Rightarrow> money \<Rightarrow> string \<Rightarrow> bool option \<Rightarrow> result" where
  "on_auction_sold s sock ts amt win online =
     (if \<not> is_clerk s sock then ([], s, None)
      else (let a = auctionState s;
                soldInfo = \<lparr> sold_lot = currentLot a, winningBid = amt, winner = win,
                             sold_isOnline = (case online of None \<Rightarrow> False | Some v \<Rightarrow> v),
                             sold_timestamp = ts \<rparr>
            in ([(ToAll, AuctionLotSold soldInfo)],
                s \<lparr> auctionState := a \<lparr> currentLot := None, currentBid := 0, onlineBids := [] \<rparr> \<rparr>,
                None)))"

definition on_auction_end :: "server \<Rightarrow> sid \<Rightarrow> result" where
  "on_auction_end s sock =
     (if \<not> is_clerk s sock then ([], s, None)
      else ([(ToAll, AuctionEnded ''Auction has ended. Thank you for bidding!'')],
            s \<lparr> auctionState := (auctionState s) \<lparr> isLive := False, currentLot := None,
                                   currentBid := 0, onlineBids := [] \<rparr> \<rparr>,
            None))"

subsection \<open>The event loop\<close>

text \<open>The events a socket can send, with their payloads.\<close>

datatype msg =
    RegisterBidder string string
  | RegisterClerk string string
  | BidSubmit money
  | AuctionStart "lot option" "money option" "money option"
  | AuctionSetLot "lot option" "money option"
  | AuctionUpdateBid money "string option"
  | BidAccept string
  | BidReject string "string option"
  | AuctionSold money string "bool option"
  | AuctionEnd
  | Disconnect

text \<open>An input is the sending socket, the clock readings of the moment, and the event.\<close>

type_synonym input = "sid \<times> (nat \<times> string) \<times> msg"

fun handle :: "server \<Rightarrow> input \<Rightarrow> result" where
  "handle s (sock, clock, RegisterBidder i n) = on_register_bidder s sock i n"
| "handle s (sock, clock, RegisterClerk i n) = on_register_clerk s sock i n"
| "handle s (sock, clock, BidSubmit amt) = on_bid_submit s sock (fst clock) (snd clock) amt"
| "handle s (sock, clock, AuctionStart l sb inc) = on_auction_start s sock l sb inc"
| "handle s (sock, clock, AuctionSetLot l sb) = on_auction_setLot s sock l sb"
| "handle s (sock, clock, AuctionUpdateBid amt src) = on_auction_updateBid s sock amt src"
| "handle s (sock, clock, BidAccept i) = on_bid_accept s sock i"
| "handle s (sock, clock, BidReject i r) = on_bid_reject s sock i r"
| "handle s (sock, clock, AuctionSold amt w on) = on_auction_sold s sock (snd clock) amt w on"
| "handle s (sock, clock, AuctionEnd) = on_auction_end s sock"
| "handle s (sock, clock, Disconnect) = on_disconnect s sock"

text \<open>
  Events are handled one at a time, each to completion. An exception that leaves a
  handler is not caught anywhere, so the run stops there.
\<close>

fun run :: "server \<Rightarrow> input list \<Rightarrow> result" where
  "run s [] = ([], s, None)"
| "run s (i # rest) =
     (case handle s i of
        (es, s', Some e) \<Rightarrow> (es, s', Some e)
      | (es, s', None) \<Rightarrow> (case run s' rest of (es', r) \<Rightarrow> (es @ es', r)))"

subsection \<open>Role counts\<close>

text \<open>
  The invariant that \<open>auctionState.connectedClients\<close> holds the sizes of the two
  Maps: every handler that changes a Map stores its new size right after.
\<close>

definition counts_agree :: "server \<Rightarrow> bool" where
  "counts_agree s =
     (n_bidders (connectedClients (auctionState s)) = js_size (bidders (connectedSockets s)) \<and>
      n_clerks (connectedClients (auctionState s)) = js_size (clerks (connectedSockets s)))"

subsection \<open>A sample session\<close>

text \<open>
  A clerk and a bidder register, the clerk starts the auction on lot 11 at 100, the
  bidder bids 105 and the clerk accepts that bid. The concrete instances below are
  taken along this session and its variants: a second bid of 110, in the queue or
  accepted first; a socket that registers under both roles; and a second bidder who
  bids and disconnects, with a bid id of his own or, bidding in the same millisecond
  as the first bidder, with the same bid id.
\<close>

definition lot11 :: lot where
  "lot11 = \<lparr> number = 11, description = ''Mantel clock'' \<rparr>"

definition lot12 :: lot where
  "lot12 = \<lparr> number = 12, description = ''Oak chair'' \<rparr>"

definition demo_setup :: "input list" where
  "demo_setup =
     [(''c1'', (1, ''t1''), RegisterClerk ''k1'' ''Kim''),
      (''b1'', (2, ''t2''), RegisterBidder ''7'' ''Ann''),
      (''c1'', (3, ''t3''), AuctionStart (Some lot11) (Some 100) (Some 5))]"

definition demo_queued :: "input list" where
  "demo_queued = demo_setup @ [(''b1'', (1000, ''t4''), BidSubmit 105)]"

definition demo_accepted :: "input list" where
  "demo_accepted = demo_queued @ [(''c1'', (1001, ''t5''), BidAccept ''bid_1000'')]"

definition demo_two_bids :: "input list" where
  "demo_two_bids = demo_queued @
     [(''b1'', (2000, ''t8''), BidSubmit 110),
      (''c1'', (2001, ''t9''), BidAccept ''bid_2000'')]"

definition demo_both_roles :: "input list" where
  "demo_both_roles =
     [(''x1'', (1, ''t1''), RegisterBidder ''9'' ''Eve''),
      (''x1'', (2, ''t2''), RegisterClerk ''k9'' ''Eve'')]"

definition demo_two_pending :: "input list" where
  "demo_two_pending = demo_queued @ [(''b1'', (2000, ''t8''), BidSubmit 110)]"

definition demo_bidder_turns_clerk :: "input list" where
  "demo_bidder_turns_clerk = demo_setup @ [(''b1'', (4, ''t4''), RegisterClerk ''k2'' ''Ann'')]"



section \<open>Auxiliary facts\<close>

lemmas handler_defs = on_register_clerk_def on_register_bidder_def on_auction_start_def
  on_bid_submit_def on_bid_accept_def on_bid_reject_def on_auction_setLot_def on_auction_updateBid_def
  on_auction_sold_def on_auction_end_def on_disconnect_def disconnect_bidder_def disconnect_clerk_def
  new_bid_def find_bidder_def is_clerk_def js_has_def js_get_def js_size_def js_delete_def js_or_def
  source_or_floor_def getPublicAuctionState_def digit_def

lemmas demo_defs = demo_setup_def lot11_def init_def emitted_def state_of_def raised_def

lemma findIndex_range:
  "findIndex P xs = - 1 \<or> (0 \<le> findIndex P xs \<and> nat (findIndex P xs) < length xs \<and> P (xs ! nat (findIndex P xs)))"
proof (induction xs)
  case Nil
  then show ?case by simp
next
  case (Cons x xs)
  then show ?case
    by (auto simp: Let_def nat_add_distrib)
qed

lemma findIndex_found:
  assumes "findIndex P xs \<noteq> - 1"
  shows "nat (findIndex P xs) < length xs" and "P (xs ! nat (findIndex P xs))"
  using assms findIndex_range [of P xs] by auto

lemma findIndex_same_keys:
  "map f xs = map f ys \<Longrightarrow> findIndex (\<lambda>b. f b = k) xs = findIndex (\<lambda>b. f b = k) ys"
proof (induction xs arbitrary: ys)
  case Nil
  then show ?case by simp
next
  case (Cons x xs)
  then obtain y ys' where "ys = y # ys'" "f x = f y" "map f xs = map f ys'" by (cases ys) auto
  with Cons.IH [of ys'] show ?case by simp
qed

lemma map_bid_id_set_status:
  "map bid_id (xs [i := (xs ! i) \<lparr> status := st \<rparr>]) = map bid_id xs"
proof (cases "i < length xs")
  case True
  then show ?thesis by (simp add: map_update list_update_same_conv)
next
  case False
  then show ?thesis by (simp add: list_update_beyond)
qed

lemma accept_queue:
  assumes "is_clerk s sock"
    and "findIndex (\<lambda>b. bid_id b = bidId) (onlineBids (auctionState s)) = i"
    and "i \<noteq> - 1"
  shows "onlineBids (auctionState (state_of (on_bid_accept s sock bidId))) =
         (onlineBids (auctionState s))
           [nat i := (onlineBids (auctionState s) ! nat i) \<lparr> status := Accepted \<rparr>]"
  using assms by (simp add: on_bid_accept_def Let_def state_of_def)

lemma reject_queue:
  assumes "is_clerk s sock"
    and "findIndex (\<lambda>b. bid_id b = bidId) (onlineBids (auctionState s)) = i"
    and "i \<noteq> - 1"
  shows "onlineBids (auctionState (state_of (on_bid_reject s sock bidId reason))) =
         (onlineBids (auctionState s))
           [nat i := (onlineBids (auctionState s) ! nat i) \<lparr> status := Rejected \<rparr>]"
  using assms by (simp add: on_bid_reject_def Let_def state_of_def)

lemma reject_currentBid:
  "currentBid (auctionState (state_of (on_bid_reject s sock bidId reason))) =
   currentBid (auctionState s)"
  by (simp add: on_bid_reject_def Let_def state_of_def)

lemma submit_too_low:
  assumes "js_has sock (bidders (connectedSockets s))"
    and "isLive (auctionState s)"
    and "amt \<le> currentBid (auctionState s)"
  shows "on_bid_submit s sock now ts amt =
           ([(ToSocket sock, BidError (BidTooLow (currentBid (auctionState s))))], s, None)"
  using assms by (auto simp: on_bid_submit_def js_has_def js_get_def Let_def)

lemma emitted_tuple [simp]: "emitted (es, s, e) = es"
  by (simp add: emitted_def)

lemma state_of_tuple [simp]: "state_of (es, s, e) = s"
  by (simp add: state_of_def)

lemma raised_tuple [simp]: "raised (es, s, e) = e"
  by (simp add: raised_def)

lemma map_of_js_set: "map_of (js_set k v m) k' = (if k' = k then Some v else map_of m k')"
  by (induction m) auto

lemma length_js_set_present: "map_of m k \<noteq> None \<Longrightarrow> length (js_set k v m) = length m"
  by (induction m) auto

lemma findIndex_first:
  "i < length xs \<Longrightarrow> P (xs ! i) \<Longrightarrow> \<forall>j<i. \<not> P (xs ! j) \<Longrightarrow> findIndex P xs = int i"
proof (induction xs arbitrary: i)
  case Nil
  then show ?case by simp
next
  case (Cons x xs)
  show ?case
  proof (cases i)
    case 0
    with Cons.prems show ?thesis by simp
  next
    case (Suc k)
    from Cons.prems Suc have "\<not> P x" by auto
    moreover have "findIndex P xs = int k"
    proof (rule Cons.IH)
      show "k < length xs" using Cons.prems Suc by simp
      show "P (xs ! k)" using Cons.prems Suc by simp
      show "\<forall>j<k. \<not> P (xs ! j)" using Cons.prems(3) Suc by auto
    qed
    ultimately show ?thesis using Suc by (simp add: Let_def)
  qed
qed

lemma findIndex_after_status:
  "findIndex (\<lambda>b. bid_id b = k) (xs [i := (xs ! i) \<lparr> status := st \<rparr>]) =
   findIndex (\<lambda>b. bid_id b = k) xs"
  by (rule findIndex_same_keys) (rule map_bid_id_set_status)

lemma keys_js_set_present: "map_of m k \<noteq> None \<Longrightarrow> map fst (js_set k v m) = map fst m"
  by (induction m) auto

lemma handle_counts_agree:
  assumes "counts_agree s"
  shows "counts_agree (state_of (handle s inp))"
proof -
  obtain sock clock m where inp: "inp = (sock, clock, m)" by (cases inp) auto
  show ?thesis
  proof (cases m)
    case (RegisterBidder i n)
    with assms inp show ?thesis by (simp add: counts_agree_def on_register_bidder_def Let_def)
  next
    case (RegisterClerk i n)
    with assms inp show ?thesis by (simp add: counts_agree_def on_register_clerk_def Let_def)
  next
    case (BidSubmit amt)
    with assms inp show ?thesis
      by (simp add: counts_agree_def on_bid_submit_def Let_def split: option.split)
  next
    case (AuctionStart l sb inc)
    with assms inp show ?thesis by (simp add: counts_agree_def on_auction_start_def Let_def)
  next
    case (AuctionSetLot l sb)
    with assms inp show ?thesis by (simp add: counts_agree_def on_auction_setLot_def Let_def)
  next
    case (AuctionUpdateBid amt src)
    with assms inp show ?thesis by (simp add: counts_agree_def on_auction_updateBid_def Let_def)
  next
    case (BidAccept i)
    with assms inp show ?thesis by (simp add: counts_agree_def on_bid_accept_def Let_def)
  next
    case (BidReject i r)
    with assms inp show ?thesis by (simp add: counts_agree_def on_bid_reject_def Let_def)
  next
    case (AuctionSold amt w on)
    with assms inp show ?thesis by (simp add: counts_agree_def on_auction_sold_def Let_def)
  next
    case AuctionEnd
    with assms inp show ?thesis by (simp add: counts_agree_def on_auction_end_def Let_def)
  next
    case Disconnect
    with assms inp show ?thesis
      by (simp add: counts_agree_def on_disconnect_def disconnect_bidder_def disconnect_clerk_def
          Let_def)
  qed
qed

lemma run_counts_agree: "counts_agree s \<Longrightarrow> counts_agree (state_of (run s ins))"
proof (induction ins arbitrary: s)
  case Nil
  then show ?case by simp
next
  case (Cons i ins)
  obtain es s' e where h: "handle s i = (es, s', e)" by (cases "handle s i") auto
  have s': "counts_agree s'"
    using handle_counts_agree [OF Cons.prems, of i] by (simp add: h)
  show ?case
  proof (cases e)
    case None
    obtain es2 s2 e2 where r: "run s' ins = (es2, s2, e2)" by (cases "run s' ins") auto
    from Cons.IH [OF s'] r have "counts_agree s2" by simp
    with h None r show ?thesis by simp
  next
    case (Some err)
    with h s' show ?thesis by simp
  qed
qed

lemma reachable_counts_agree: "counts_agree (state_of (run init ins))"
  by (rule run_counts_agree) (simp add: counts_agree_def init_def js_size_def)

section \<open>Resolving a bid twice\<close>

text \<open>
  C1, as stated, fails: along the sample session the bid \<open>bid_1000\<close> is still in
  \<open>onlineBids\<close> after it was accepted, a second \<open>bid:accept\<close> of the same id
  notifies the bidder and broadcasts the bid update once more instead of finding
  nothing, and a \<open>bid:reject\<close> of the same id turns the accepted bid into a rejected
  one.
\<close>

theorem accept_twice_counterexample:
  "map bid_id (onlineBids (auctionState (state_of (run init demo_accepted)))) = [''bid_1000'']
   \<and> emitted (on_bid_accept (state_of (run init demo_accepted)) ''c1'' ''bid_1000'') =
       [(ToSocket ''b1'', BidAcceptedEv \<lparr> bid_id = ''bid_1000'', bidderId = ''7'',
            bidderName = ''Ann'', amount = 105, lotNumber = Some 11, timestamp = ''t4'',
            status = Accepted, isOnline = True \<rparr>),
        (ToAll, AuctionBidUpdate 105 ''online'' (Some ''Ann''))]
   \<and> map status (onlineBids (auctionState
         (state_of (on_bid_reject (state_of (run init demo_accepted)) ''c1'' ''bid_1000'' None)))) =
       [Rejected]"
  by (simp add: demo_accepted_def demo_queued_def demo_defs handler_defs Let_def dec.simps)

text \<open>
  C1, as amended: \<open>bid:accept\<close> by a clerk of an id that is in \<open>onlineBids\<close> marks
  the first bid with that id accepted in place, sets \<open>currentBid\<close> to its amount and
  leaves it in the queue. A second \<open>bid:accept\<close> of the same id directly afterwards
  is processed like the first: it emits what the first call emitted and leaves the
  state, \<open>currentBid\<close> included, as the first call left it. A \<open>bid:reject\<close> of the
  same id directly afterwards is processed as well: it marks that bid rejected,
  notifies its bidder if connected, and leaves \<open>currentBid\<close> as the accept set it.
\<close>

theorem accepted_bid_is_found_again:
  assumes "is_clerk s sock"
    and "i < length (onlineBids (auctionState s))"
    and "bid_id (onlineBids (auctionState s) ! i) = bidId"
    and "\<forall>j<i. bid_id (onlineBids (auctionState s) ! j) \<noteq> bidId"
  shows "on_bid_accept s sock bidId =
     ((case find_bidder (bidderId (onlineBids (auctionState s) ! i)) (bidders (connectedSockets s)) of
         None \<Rightarrow> []
       | Some e \<Rightarrow> [(ToSocket (fst e),
                     BidAcceptedEv ((onlineBids (auctionState s) ! i) \<lparr> status := Accepted \<rparr>))])
      @ [(ToAll, AuctionBidUpdate (amount (onlineBids (auctionState s) ! i)) ''online''
                   (Some (bidderName (onlineBids (auctionState s) ! i))))],
      s \<lparr> auctionState := (auctionState s)
            \<lparr> onlineBids := (onlineBids (auctionState s))
                 [i := (onlineBids (auctionState s) ! i) \<lparr> status := Accepted \<rparr>],
              currentBid := amount (onlineBids (auctionState s) ! i) \<rparr> \<rparr>,
      None)
   \<and> on_bid_accept (state_of (on_bid_accept s sock bidId)) sock bidId =
       (emitted (on_bid_accept s sock bidId), state_of (on_bid_accept s sock bidId), None)
   \<and> on_bid_reject (state_of (on_bid_accept s sock bidId)) sock bidId reason =
     ((case find_bidder (bidderId (onlineBids (auctionState s) ! i)) (bidders (connectedSockets s)) of
         None \<Rightarrow> []
       | Some e \<Rightarrow> [(ToSocket (fst e),
                     BidRejectedEv ((onlineBids (auctionState s) ! i) \<lparr> status := Rejected \<rparr>) reason)]),
      s \<lparr> auctionState := (auctionState s)
            \<lparr> onlineBids := (onlineBids (auctionState s))
                 [i := (onlineBids (auctionState s) ! i) \<lparr> status := Rejected \<rparr>],
              currentBid := amount (onlineBids (auctionState s) ! i) \<rparr> \<rparr>,
      None)"
proof -
  let ?q = "onlineBids (auctionState s)"
  let ?b = "?q ! i"
  let ?q1 = "?q [i := ?b \<lparr> status := Accepted \<rparr>]"
  let ?s1 = "s \<lparr> auctionState := (auctionState s) \<lparr> onlineBids := ?q1, currentBid := amount ?b \<rparr> \<rparr>"
  have fi: "findIndex (\<lambda>b. bid_id b = bidId) ?q = int i"
    using assms(2-4) by (intro findIndex_first) auto
  have first: "on_bid_accept s sock bidId =
     ((case find_bidder (bidderId ?b) (bidders (connectedSockets s)) of
         None \<Rightarrow> []
       | Some e \<Rightarrow> [(ToSocket (fst e), BidAcceptedEv (?b \<lparr> status := Accepted \<rparr>))])
      @ [(ToAll, AuctionBidUpdate (amount ?b) ''online'' (Some (bidderName ?b)))],
      ?s1, None)"
    using assms(1) by (simp add: on_bid_accept_def Let_def fi)
  have clerk1: "is_clerk ?s1 sock"
    using assms(1) by (simp add: is_clerk_def)
  have fi1: "findIndex (\<lambda>b. bid_id b = bidId) ?q1 = int i"
    by (simp add: findIndex_after_status fi)
  have at1: "?q1 ! i = ?b \<lparr> status := Accepted \<rparr>"
    using assms(2) by simp
  have second: "on_bid_accept ?s1 sock bidId =
     ((case find_bidder (bidderId ?b) (bidders (connectedSockets s)) of
         None \<Rightarrow> []
       | Some e \<Rightarrow> [(ToSocket (fst e), BidAcceptedEv (?b \<lparr> status := Accepted \<rparr>))])
      @ [(ToAll, AuctionBidUpdate (amount ?b) ''online'' (Some (bidderName ?b)))],
      ?s1, None)"
    using clerk1 by (simp add: on_bid_accept_def Let_def fi1 at1)
  have third: "on_bid_reject ?s1 sock bidId reason =
     ((case find_bidder (bidderId ?b) (bidders (connectedSockets s)) of
         None \<Rightarrow> []
       | Some e \<Rightarrow> [(ToSocket (fst e), BidRejectedEv (?b \<lparr> status := Rejected \<rparr>) reason)]),
      s \<lparr> auctionState := (auctionState s)
            \<lparr> onlineBids := ?q [i := ?b \<lparr> status := Rejected \<rparr>], currentBid := amount ?b \<rparr> \<rparr>,
      None)"
    using clerk1 by (simp add: on_bid_reject_def Let_def fi1 at1)
  show ?thesis
    using second third by (simp add: first)
qed

theorem accepted_bid_is_found_again_witness:
  "emitted (on_bid_accept (state_of (run init demo_two_pending)) ''c1'' ''bid_2000'') =
     [(ToSocket ''b1'', BidAcceptedEv
         \<lparr> bid_id = ''bid_2000'', bidderId = ''7'', bidderName = ''Ann'', amount = 110,
           lotNumber = Some 11, timestamp = ''t8'', status = Accepted, isOnline = True \<rparr>),
      (ToAll, AuctionBidUpdate 110 ''online'' (Some ''Ann''))]
   \<and> map status (onlineBids (auctionState
         (state_of (on_bid_accept (state_of (run init demo_two_pending)) ''c1'' ''bid_2000'')))) =
       [Pending, Accepted]
   \<and> on_bid_accept (state_of (on_bid_accept (state_of (run init demo_two_pending)) ''c1'' ''bid_2000''))
         ''c1'' ''bid_2000'' =
       (emitted (on_bid_accept (state_of (run init demo_two_pending)) ''c1'' ''bid_2000''),
        state_of (on_bid_accept (state_of (run init demo_two_pending)) ''c1'' ''bid_2000''), None)
   \<and> emitted (on_bid_reject (state_of (on_bid_accept (state_of (run init demo_two_pending)) ''c1'' ''bid_2000''))
         ''c1'' ''bid_2000'' (Some ''late'')) =
       [(ToSocket ''b1'', BidRejectedEv
          \<lparr> bid_id = ''bid_2000'', bidderId = ''7'', bidderName = ''Ann'', amount = 110,
            lotNumber = Some 11, timestamp = ''t8'', status = Rejected, isOnline = True \<rparr>
          (Some ''late''))]
   \<and> map status (onlineBids (auctionState (state_of
         (on_bid_reject (state_of (on_bid_accept (state_of (run init demo_two_pending)) ''c1'' ''bid_2000''))
            ''c1'' ''bid_2000'' (Some ''late''))))) = [Pending, Rejected]
   \<and> currentBid (auctionState (state_of
         (on_bid_reject (state_of (on_bid_accept (state_of (run init demo_two_pending)) ''c1'' ''bid_2000''))
            ''c1'' ''bid_2000'' (Some ''late'')))) = 110"
proof -
  let ?S = "state_of (run init demo_two_pending)"
  have s: "?S =
        \<lparr> auctionState =
            \<lparr> isLive = True, currentLot = Some lot11, currentBid = 100, bidIncrement = 5,
              onlineBids =
                [\<lparr> bid_id = ''bid_1000'', bidderId = ''7'', bidderName = ''Ann'', amount = 105,
                   lotNumber = Some 11, timestamp = ''t4'', status = Pending, isOnline = True \<rparr>,
                 \<lparr> bid_id = ''bid_2000'', bidderId = ''7'', bidderName = ''Ann'', amount = 110,
                   lotNumber = Some 11, timestamp = ''t8'', status = Pending, isOnline = True \<rparr>],
              connectedClients = \<lparr> n_bidders = 1, n_clerks = 1 \<rparr> \<rparr>,
          connectedSockets =
            \<lparr> bidders = [(''b1'', \<lparr> conn_bidderId = ''7'', conn_name = ''Ann'' \<rparr>)],
              clerks = [(''c1'', \<lparr> conn_clerkId = ''k1'', clerk_name = ''Kim'' \<rparr>)] \<rparr> \<rparr>"
    by (simp add: demo_two_pending_def demo_queued_def demo_defs handler_defs Let_def dec.simps)
  have clerk: "is_clerk ?S ''c1''"
    by (simp add: s is_clerk_def js_has_def)
  have len: "1 < length (onlineBids (auctionState ?S))"
    by (simp add: s)
  have at: "bid_id (onlineBids (auctionState ?S) ! 1) = ''bid_2000''"
    by (simp add: s)
  have first: "\<forall>j<1. bid_id (onlineBids (auctionState ?S) ! j) \<noteq> ''bid_2000''"
    by (simp add: s)
  have q: "onlineBids (auctionState ?S) =
             [\<lparr> bid_id = ''bid_1000'', bidderId = ''7'', bidderName = ''Ann'', amount = 105,
                lotNumber = Some 11, timestamp = ''t4'', status = Pending, isOnline = True \<rparr>,
              \<lparr> bid_id = ''bid_2000'', bidderId = ''7'', bidderName = ''Ann'', amount = 110,
                lotNumber = Some 11, timestamp = ''t8'', status = Pending, isOnline = True \<rparr>]"
    by (simp add: s)
  have fb: "find_bidder ''7'' (bidders (connectedSockets ?S)) =
              Some (''b1'', \<lparr> conn_bidderId = ''7'', conn_name = ''Ann'' \<rparr>)"
    by (simp add: s find_bidder_def)
  note t = accepted_bid_is_found_again [OF clerk len at first, of "Some ''late''"]
  from t [THEN conjunct1] have once: "on_bid_accept ?S ''c1'' ''bid_2000'' =
     ([(ToSocket ''b1'', BidAcceptedEv
         \<lparr> bid_id = ''bid_2000'', bidderId = ''7'', bidderName = ''Ann'', amount = 110,
           lotNumber = Some 11, timestamp = ''t8'', status = Accepted, isOnline = True \<rparr>),
       (ToAll, AuctionBidUpdate 110 ''online'' (Some ''Ann''))],
      ?S \<lparr> auctionState := (auctionState ?S)
            \<lparr> onlineBids :=
                [\<lparr> bid_id = ''bid_1000'', bidderId = ''7'', bidderName = ''Ann'', amount = 105,
                   lotNumber = Some 11, timestamp = ''t4'', status = Pending, isOnline = True \<rparr>,
                 \<lparr> bid_id = ''bid_2000'', bidderId = ''7'', bidderName = ''Ann'', amount = 110,
                   lotNumber = Some 11, timestamp = ''t8'', status = Accepted, isOnline = True \<rparr>],
              currentBid := 110 \<rparr> \<rparr>,
      None)"
    by (simp add: q fb)
  from t [THEN conjunct2, THEN conjunct1] have twice: "on_bid_accept (state_of (on_bid_accept ?S ''c1'' ''bid_2000'')) ''c1'' ''bid_2000'' =
       (emitted (on_bid_accept ?S ''c1'' ''bid_2000''),
        state_of (on_bid_accept ?S ''c1'' ''bid_2000''), None)" .
  from t [THEN conjunct2, THEN conjunct2] have rej: "on_bid_reject (state_of (on_bid_accept ?S ''c1'' ''bid_2000'')) ''c1'' ''bid_2000''
        (Some ''late'') =
     ([(ToSocket ''b1'', BidRejectedEv
          \<lparr> bid_id = ''bid_2000'', bidderId = ''7'', bidderName = ''Ann'', amount = 110,
            lotNumber = Some 11, timestamp = ''t8'', status = Rejected, isOnline = True \<rparr>
          (Some ''late''))],
      ?S \<lparr> auctionState := (auctionState ?S)
            \<lparr> onlineBids :=
                [\<lparr> bid_id = ''bid_1000'', bidderId = ''7'', bidderName = ''Ann'', amount = 105,
                   lotNumber = Some 11, timestamp = ''t4'', status = Pending, isOnline = True \<rparr>,
                 \<lparr> bid_id = ''bid_2000'', bidderId = ''7'', bidderName = ''Ann'', amount = 110,
                   lotNumber = Some 11, timestamp = ''t8'', status = Rejected, isOnline = True \<rparr>],
              currentBid := 110 \<rparr> \<rparr>,
      None)"
    by (simp add: q fb)
  show ?thesis
    by (simp add: twice rej) (simp add: once)
qed

section \<open>The queue keeps resolved bids\<close>

text \<open>
  C2, as stated, fails: along the sample session the queue holds an accepted bid
  after \<open>bid:accept\<close>, and a rejected one after \<open>bid:reject\<close>.
\<close>

theorem resolved_bid_in_queue_counterexample:
  "map status (onlineBids (auctionState (state_of (run init demo_accepted)))) = [Accepted]
   \<and> map status (onlineBids (auctionState (state_of (run init
         (demo_queued @ [(''c1'', (1001, ''t5''), BidReject ''bid_1000'' None)]))))) = [Rejected]"
  by (simp add: demo_accepted_def demo_queued_def demo_defs handler_defs Let_def dec.simps)

text \<open>
  C2, as amended: \<open>bid:accept\<close> and \<open>bid:reject\<close> by a clerk do not remove the bid
  they resolve. The first bid of \<open>onlineBids\<close> with the given id stays at its index
  with its status overwritten (accepted, respectively rejected), and the rest of the
  queue is as before.
\<close>

theorem resolved_bids_stay_queued:
  assumes "is_clerk s sock"
    and "findIndex (\<lambda>b. bid_id b = bidId) (onlineBids (auctionState s)) = i"
    and "i \<noteq> - 1"
  shows "nat i < length (onlineBids (auctionState s))
       \<and> onlineBids (auctionState (state_of (on_bid_accept s sock bidId))) =
           (onlineBids (auctionState s))
             [nat i := (onlineBids (auctionState s) ! nat i) \<lparr> status := Accepted \<rparr>]
       \<and> onlineBids (auctionState (state_of (on_bid_reject s sock bidId reason))) =
           (onlineBids (auctionState s))
             [nat i := (onlineBids (auctionState s) ! nat i) \<lparr> status := Rejected \<rparr>]"
proof -
  have "nat i < length (onlineBids (auctionState s))"
    using findIndex_found(1) [of "\<lambda>b. bid_id b = bidId" "onlineBids (auctionState s)"] assms(2,3)
    by simp
  moreover note accept_queue [OF assms] reject_queue [OF assms, of reason]
  ultimately show ?thesis by simp
qed

theorem resolved_bids_stay_queued_witness:
  "nat 0 < length (onlineBids (auctionState (state_of (run init demo_queued))))
   \<and> map status (onlineBids (auctionState
        (state_of (on_bid_accept (state_of (run init demo_queued)) ''c1'' ''bid_1000'')))) = [Accepted]
   \<and> map status (onlineBids (auctionState
        (state_of (on_bid_reject (state_of (run init demo_queued)) ''c1'' ''bid_1000'' None)))) = [Rejected]"
proof -
  have clerk: "is_clerk (state_of (run init demo_queued)) ''c1''"
    by (simp add: demo_queued_def demo_defs handler_defs Let_def dec.simps)
  have i: "findIndex (\<lambda>b. bid_id b = ''bid_1000'')
             (onlineBids (auctionState (state_of (run init demo_queued)))) = 0"
    by (simp add: demo_queued_def demo_defs handler_defs Let_def dec.simps)
  have q: "map status (onlineBids (auctionState (state_of (run init demo_queued)))) = [Pending]"
    by (simp add: demo_queued_def demo_defs handler_defs Let_def dec.simps)
  have found: "(0::int) \<noteq> - 1" by simp
  from q obtain b where b: "onlineBids (auctionState (state_of (run init demo_queued))) = [b]"
    by auto
  show ?thesis
    using resolved_bids_stay_queued [OF clerk i found, of None] by (simp add: b)
qed

section \<open>The current bid\<close>

text \<open>
  C3, as stated, fails: with lot 11 current throughout, \<open>auction:updateBid\<close> takes
  \<open>currentBid\<close> from 100 down to 50, and accepting the older bid of 105 after the
  bid of 110 takes it from 110 down to 105.
\<close>

theorem currentBid_lowered_counterexample:
  "currentBid (auctionState (state_of (run init demo_setup))) = 100
   \<and> currentLot (auctionState (state_of (run init demo_setup))) = Some lot11
   \<and> currentBid (auctionState (state_of (run init
         (demo_setup @ [(''c1'', (4, ''t4''), AuctionUpdateBid 50 None)])))) = 50
   \<and> currentLot (auctionState (state_of (run init
         (demo_setup @ [(''c1'', (4, ''t4''), AuctionUpdateBid 50 None)])))) = Some lot11
   \<and> currentBid (auctionState (state_of (run init demo_two_bids))) = 110
   \<and> currentBid (auctionState (state_of (run init
         (demo_two_bids @ [(''c1'', (2002, ''t10''), BidAccept ''bid_1000'')])))) = 105
   \<and> currentLot (auctionState (state_of (run init
         (demo_two_bids @ [(''c1'', (2002, ''t10''), BidAccept ''bid_1000'')])))) = Some lot11"
  by (simp add: demo_two_bids_def demo_queued_def demo_defs handler_defs Let_def dec.simps)

text \<open>
  C3, as amended: what each event does to \<open>currentBid\<close>. A clerk's \<open>auction:start\<close>
  and \<open>auction:setLot\<close> set it to the given starting bid (0 when none is given), a
  clerk's \<open>auction:updateBid\<close> to the given amount, a clerk's \<open>bid:accept\<close> of a
  queued bid to that bid's amount, a clerk's \<open>auction:sold\<close> and \<open>auction:end\<close> to
  0; every other event, and every command of a socket that is not a clerk, leaves it
  unchanged. No comparison with the previous value is made.
\<close>

theorem currentBid_after_event:
  "currentBid (auctionState (state_of (handle s (sock, clock, m)))) =
     (case m of
        AuctionStart l starting inc \<Rightarrow>
          if is_clerk s sock then js_or starting 0 else currentBid (auctionState s)
      | AuctionSetLot l starting \<Rightarrow>
          if is_clerk s sock then js_or starting 0 else currentBid (auctionState s)
      | AuctionUpdateBid amt src \<Rightarrow>
          if is_clerk s sock then amt else currentBid (auctionState s)
      | BidAccept bidId \<Rightarrow>
          if is_clerk s sock \<and> findIndex (\<lambda>b. bid_id b = bidId) (onlineBids (auctionState s)) \<noteq> - 1
          then amount (onlineBids (auctionState s) !
                         nat (findIndex (\<lambda>b. bid_id b = bidId) (onlineBids (auctionState s))))
          else currentBid (auctionState s)
      | AuctionSold amt w on \<Rightarrow> if is_clerk s sock then 0 else currentBid (auctionState s)
      | AuctionEnd \<Rightarrow> if is_clerk s sock then 0 else currentBid (auctionState s)
      | _ \<Rightarrow> currentBid (auctionState s))"
proof (cases m)
  case (RegisterBidder i n)
  then show ?thesis by (simp add: on_register_bidder_def Let_def state_of_def)
next
  case (RegisterClerk i n)
  then show ?thesis by (simp add: on_register_clerk_def Let_def state_of_def)
next
  case (BidSubmit amt)
  then show ?thesis
    by (simp add: on_bid_submit_def Let_def state_of_def split: option.split)
next
  case (AuctionStart l sb inc)
  then show ?thesis by (simp add: on_auction_start_def Let_def state_of_def)
next
  case (AuctionSetLot l sb)
  then show ?thesis by (simp add: on_auction_setLot_def Let_def state_of_def)
next
  case (AuctionUpdateBid amt src)
  then show ?thesis by (simp add: on_auction_updateBid_def Let_def state_of_def)
next
  case (BidAccept i)
  then show ?thesis by (simp add: on_bid_accept_def Let_def state_of_def)
next
  case (BidReject i r)
  then show ?thesis by (simp add: reject_currentBid)
next
  case (AuctionSold amt w on)
  then show ?thesis by (simp add: on_auction_sold_def Let_def state_of_def)
next
  case AuctionEnd
  then show ?thesis by (simp add: on_auction_end_def Let_def state_of_def)
next
  case Disconnect
  then show ?thesis
    by (simp add: on_disconnect_def disconnect_bidder_def disconnect_clerk_def Let_def state_of_def)
qed

theorem currentBid_after_event_witness:
  "currentBid (auctionState (state_of (handle (state_of (run init demo_setup))
      (''c1'', (4, ''t4''), AuctionUpdateBid 50 None)))) = 50"
proof -
  have clerk: "is_clerk (state_of (run init demo_setup)) ''c1''"
    by (simp add: demo_defs handler_defs Let_def)
  show ?thesis
    using currentBid_after_event [of "state_of (run init demo_setup)" "''c1''" "(4, ''t4'')"
        "AuctionUpdateBid 50 None"] clerk
    by simp
qed

section \<open>Commands of sockets that are not clerks\<close>

text \<open>
  C4, as stated, fails: \<open>auction:setLot\<close> from a socket that is no clerk leaves the
  state alone, but sends nothing at all, to the caller neither.
\<close>

theorem silent_drop_counterexample:
  "\<not> is_clerk (state_of (run init demo_setup)) ''b1''
   \<and> on_auction_setLot (state_of (run init demo_setup)) ''b1'' (Some lot12) (Some 50) =
       ([], state_of (run init demo_setup), None)"
  by (simp add: lot12_def demo_defs handler_defs Let_def)

text \<open>
  C4, as amended: each of the seven clerk commands, sent by a socket that is not
  registered as a clerk, leaves the server state unchanged and sends nothing to any
  other socket. \<open>auction:start\<close> answers the caller with the \<open>error\<close> event
  "Unauthorized"; the other six send nothing.
\<close>

theorem non_clerk_commands_dropped:
  assumes "\<not> is_clerk s sock"
  shows "on_auction_start s sock l starting inc = ([(ToSocket sock, ErrorEv ''Unauthorized'')], s, None)
       \<and> on_auction_setLot s sock l starting = ([], s, None)
       \<and> on_auction_updateBid s sock amt src = ([], s, None)
       \<and> on_bid_accept s sock bidId = ([], s, None)
       \<and> on_bid_reject s sock bidId reason = ([], s, None)
       \<and> on_auction_sold s sock ts amt w on = ([], s, None)
       \<and> on_auction_end s sock = ([], s, None)"
  using assms
  by (simp add: on_auction_start_def on_auction_setLot_def on_auction_updateBid_def
      on_bid_accept_def on_bid_reject_def on_auction_sold_def on_auction_end_def)

theorem non_clerk_commands_dropped_witness:
  "on_auction_start (state_of (run init demo_setup)) ''b1'' (Some lot12) (Some 50) (Some 5) =
       ([(ToSocket ''b1'', ErrorEv ''Unauthorized'')], state_of (run init demo_setup), None)
   \<and> on_auction_setLot (state_of (run init demo_setup)) ''b1'' (Some lot12) (Some 50) =
       ([], state_of (run init demo_setup), None)
   \<and> on_auction_updateBid (state_of (run init demo_setup)) ''b1'' 500 None =
       ([], state_of (run init demo_setup), None)
   \<and> on_bid_accept (state_of (run init demo_setup)) ''b1'' ''bid_1000'' =
       ([], state_of (run init demo_setup), None)
   \<and> on_bid_reject (state_of (run init demo_setup)) ''b1'' ''bid_1000'' None =
       ([], state_of (run init demo_setup), None)
   \<and> on_auction_sold (state_of (run init demo_setup)) ''b1'' ''t4'' 500 ''Ann'' (Some True) =
       ([], state_of (run init demo_setup), None)
   \<and> on_auction_end (state_of (run init demo_setup)) ''b1'' =
       ([], state_of (run init demo_setup), None)"
proof -
  have no_clerk: "\<not> is_clerk (state_of (run init demo_setup)) ''b1''"
    by (simp add: lot12_def demo_defs handler_defs Let_def)
  show ?thesis
    by (rule non_clerk_commands_dropped [OF no_clerk])
qed

section \<open>Snapshots on registration\<close>

text \<open>
  C5, as stated, fails for the clerk: a clerk who registers after the bid of the
  sample session was accepted is sent the queue with the accepted bid in it.
\<close>

theorem clerk_snapshot_counterexample:
  "emitted (on_register_clerk (state_of (run init demo_accepted)) ''c2'' ''k2'' ''Lee'') =
     [(ToSocket ''c2'', AuctionFullState
         \<lparr> isLive = True, currentLot = Some lot11, currentBid = 105, bidIncrement = 5,
           onlineBids = [\<lparr> bid_id = ''bid_1000'', bidderId = ''7'', bidderName = ''Ann'',
                           amount = 105, lotNumber = Some 11, timestamp = ''t4'',
                           status = Accepted, isOnline = True \<rparr>],
           connectedClients = \<lparr> n_bidders = 1, n_clerks = 2 \<rparr> \<rparr>)]"
  by (simp add: demo_accepted_def demo_queued_def demo_defs handler_defs Let_def dec.simps)

text \<open>
  C5, as amended: a registering bidder is sent exactly the five fields of
  \<open>getPublicAuctionState\<close> (live flag, current lot, current bid, increment, number of
  registered bidders), and that snapshot is the same whatever the bid queue holds; a
  registering clerk is sent the whole \<open>auctionState\<close> with the clerk count updated,
  its \<open>onlineBids\<close> being the queue as stored, unfiltered.
\<close>

theorem snapshots_on_registration:
  "emitted (on_register_bidder s sock i n) =
     [(ToSocket sock, AuctionStateEv
         \<lparr> pub_isLive = isLive (auctionState s),
           pub_currentLot = currentLot (auctionState s),
           pub_currentBid = currentBid (auctionState s),
           pub_bidIncrement = bidIncrement (auctionState s),
           pub_onlineBidders =
             js_size (js_set sock \<lparr> conn_bidderId = i, conn_name = n \<rparr> (bidders (connectedSockets s))) \<rparr>),
      (ToRoom ClerksRoom, BiddersCount
         (js_size (js_set sock \<lparr> conn_bidderId = i, conn_name = n \<rparr> (bidders (connectedSockets s)))))]
   \<and> emitted (on_register_bidder (s \<lparr> auctionState := (auctionState s) \<lparr> onlineBids := q \<rparr> \<rparr>) sock i n) =
       emitted (on_register_bidder s sock i n)
   \<and> emitted (on_register_clerk s sock i n) =
       [(ToSocket sock, AuctionFullState
          ((auctionState s) \<lparr> connectedClients := (connectedClients (auctionState s))
             \<lparr> n_clerks := js_size (js_set sock \<lparr> conn_clerkId = i, clerk_name = n \<rparr>
                                       (clerks (connectedSockets s))) \<rparr> \<rparr>))]"
  by (simp add: on_register_bidder_def on_register_clerk_def getPublicAuctionState_def
      emitted_def Let_def)

section \<open>Bids that are too low\<close>

text \<open>
  C6: while the auction is live, every \<open>bid:submit\<close> of a registered bidder with an
  amount not above \<open>currentBid\<close> is answered with the too-low error to the sender
  alone and leaves the whole server state as it was; hence after any sequence of
  such submissions the state, and with it \<open>currentBid\<close>, is unchanged.
\<close>

theorem too_low_bids_change_nothing:
  assumes "isLive (auctionState s)"
    and "\<forall>i \<in> set ins. js_has (fst i) (bidders (connectedSockets s)) \<and>
            (\<exists>amt. snd (snd i) = BidSubmit amt \<and> amt \<le> currentBid (auctionState s))"
  shows "run s ins =
           (map (\<lambda>i. (ToSocket (fst i), BidError (BidTooLow (currentBid (auctionState s))))) ins,
            s, None)"
  using assms(2)
proof (induction ins)
  case Nil
  then show ?case by simp
next
  case (Cons i ins)
  obtain sock clock m where i: "i = (sock, clock, m)" by (cases i) auto
  from Cons.prems i obtain amt where m: "m = BidSubmit amt"
    and low: "amt \<le> currentBid (auctionState s)"
    and reg: "js_has sock (bidders (connectedSockets s))" by auto
  have "handle s i = ([(ToSocket sock, BidError (BidTooLow (currentBid (auctionState s))))], s, None)"
    using submit_too_low [OF reg assms(1) low] by (simp add: i m)
  moreover have "run s ins =
      (map (\<lambda>i. (ToSocket (fst i), BidError (BidTooLow (currentBid (auctionState s))))) ins, s, None)"
    using Cons by simp
  ultimately show ?case by (simp add: i)
qed

theorem too_low_bids_change_nothing_witness:
  "run (state_of (run init demo_setup))
       [(''b1'', (10, ''t6''), BidSubmit 95), (''b1'', (11, ''t7''), BidSubmit 100)] =
     ([(ToSocket ''b1'', BidError (BidTooLow 100)), (ToSocket ''b1'', BidError (BidTooLow 100))],
      state_of (run init demo_setup), None)"
proof -
  have live: "isLive (auctionState (state_of (run init demo_setup)))"
    by (simp add: demo_defs handler_defs Let_def)
  have cur: "currentBid (auctionState (state_of (run init demo_setup))) = 100"
    by (simp add: demo_defs handler_defs Let_def)
  have reg: "js_has ''b1'' (bidders (connectedSockets (state_of (run init demo_setup))))"
    by (simp add: demo_defs handler_defs Let_def)
  have low: "\<forall>i \<in> set [(''b1'', (10::nat, ''t6''), BidSubmit 95), (''b1'', (11, ''t7''), BidSubmit 100)].
               js_has (fst i) (bidders (connectedSockets (state_of (run init demo_setup)))) \<and>
               (\<exists>amt. snd (snd i) = BidSubmit amt \<and>
                  amt \<le> currentBid (auctionState (state_of (run init demo_setup))))"
    using reg by (simp add: cur)
  show ?thesis
    using too_low_bids_change_nothing [OF live low] by (simp add: cur)
qed

section \<open>Bids above the current bid\<close>

text \<open>
  C7: while the auction is live, a \<open>bid:submit\<close> of a registered bidder with an amount
  above \<open>currentBid\<close> appends one new bid with status pending and that amount to
  \<open>onlineBids\<close>, changes nothing else of the state (so \<open>currentBid\<close> stays), and emits
  \<open>bid:confirmed\<close> to the submitting socket and \<open>bid:new\<close> to the clerks' room.
\<close>

theorem higher_bid_is_queued:
  assumes "js_get sock (bidders (connectedSockets s)) = Some bidder"
    and "isLive (auctionState s)"
    and "currentBid (auctionState s) < amt"
  shows "on_bid_submit s sock now ts amt =
           ([(ToSocket sock, BidConfirmed ''Bid submitted - waiting for auctioneer''
                               (new_bid (auctionState s) bidder now ts amt)),
             (ToRoom ClerksRoom, BidNew (new_bid (auctionState s) bidder now ts amt))],
            s \<lparr> auctionState := (auctionState s)
                  \<lparr> onlineBids := onlineBids (auctionState s) @
                                     [new_bid (auctionState s) bidder now ts amt] \<rparr> \<rparr>,
            None)
       \<and> status (new_bid (auctionState s) bidder now ts amt) = Pending
       \<and> amount (new_bid (auctionState s) bidder now ts amt) = amt
       \<and> currentBid (auctionState (state_of (on_bid_submit s sock now ts amt))) =
           currentBid (auctionState s)"
  using assms by (simp add: on_bid_submit_def new_bid_def Let_def state_of_def)

theorem higher_bid_is_queued_witness:
  "on_bid_submit (state_of (run init demo_setup)) ''b1'' 1000 ''t4'' 105 =
     ([(ToSocket ''b1'', BidConfirmed ''Bid submitted - waiting for auctioneer''
          \<lparr> bid_id = ''bid_1000'', bidderId = ''7'', bidderName = ''Ann'', amount = 105,
            lotNumber = Some 11, timestamp = ''t4'', status = Pending, isOnline = True \<rparr>),
       (ToRoom ClerksRoom, BidNew
          \<lparr> bid_id = ''bid_1000'', bidderId = ''7'', bidderName = ''Ann'', amount = 105,
            lotNumber = Some 11, timestamp = ''t4'', status = Pending, isOnline = True \<rparr>)],
      state_of (run init demo_queued), None)"
proof -
  have reg: "js_get ''b1'' (bidders (connectedSockets (state_of (run init demo_setup)))) =
               Some \<lparr> conn_bidderId = ''7'', conn_name = ''Ann'' \<rparr>"
    by (simp add: demo_queued_def demo_defs handler_defs Let_def)
  have live: "isLive (auctionState (state_of (run init demo_setup)))"
    by (simp add: demo_queued_def demo_defs handler_defs Let_def)
  have above: "currentBid (auctionState (state_of (run init demo_setup))) < 105"
    by (simp add: demo_queued_def demo_defs handler_defs Let_def)
  have b: "new_bid (auctionState (state_of (run init demo_setup)))
             \<lparr> conn_bidderId = ''7'', conn_name = ''Ann'' \<rparr> 1000 ''t4'' 105 =
           \<lparr> bid_id = ''bid_1000'', bidderId = ''7'', bidderName = ''Ann'', amount = 105,
             lotNumber = Some 11, timestamp = ''t4'', status = Pending, isOnline = True \<rparr>"
    by (simp add: demo_queued_def demo_defs handler_defs Let_def dec.simps)
  have q: "state_of (run init demo_queued) =
           (state_of (run init demo_setup))
             \<lparr> auctionState := (auctionState (state_of (run init demo_setup)))
                 \<lparr> onlineBids := onlineBids (auctionState (state_of (run init demo_setup))) @
                      [\<lparr> bid_id = ''bid_1000'', bidderId = ''7'', bidderName = ''Ann'', amount = 105,
                         lotNumber = Some 11, timestamp = ''t4'', status = Pending, isOnline = True \<rparr>] \<rparr> \<rparr>"
    by (simp add: demo_queued_def demo_defs handler_defs Let_def dec.simps)
  show ?thesis
    using higher_bid_is_queued [OF reg live above, of 1000 "''t4''"] by (simp add: b q)
qed

section \<open>Changing the lot\<close>

text \<open>
  C8: \<open>auction:setLot\<close> by a clerk, whatever the state before, makes the given lot
  current, sets \<open>currentBid\<close> to the given starting bid, empties \<open>onlineBids\<close> and
  broadcasts \<open>auction:lotChanged\<close> with the new lot and the new current bid to all.
\<close>

theorem setLot_replaces_lot:
  assumes "is_clerk s sock"
  shows "on_auction_setLot s sock (Some l) (Some starting) =
           ([(ToAll, AuctionLotChanged (Some l) starting)],
            s \<lparr> auctionState := (auctionState s)
                  \<lparr> currentLot := Some l, currentBid := starting, onlineBids := [] \<rparr> \<rparr>,
            None)"
  using assms by (simp add: on_auction_setLot_def js_or_def Let_def)

theorem setLot_replaces_lot_witness:
  "onlineBids (auctionState (state_of (run init demo_queued))) \<noteq> []
   \<and> emitted (on_auction_setLot (state_of (run init demo_queued)) ''c1'' (Some lot12) (Some 50)) =
       [(ToAll, AuctionLotChanged (Some lot12) 50)]
   \<and> auctionState (state_of (on_auction_setLot (state_of (run init demo_queued)) ''c1'' (Some lot12) (Some 50))) =
       \<lparr> isLive = True, currentLot = Some lot12, currentBid = 50, bidIncrement = 5,
         onlineBids = [], connectedClients = \<lparr> n_bidders = 1, n_clerks = 1 \<rparr> \<rparr>"
proof -
  have clerk: "is_clerk (state_of (run init demo_queued)) ''c1''"
    by (simp add: demo_queued_def lot12_def demo_defs handler_defs Let_def dec.simps)
  have q: "onlineBids (auctionState (state_of (run init demo_queued))) \<noteq> []"
    by (simp add: demo_queued_def lot12_def demo_defs handler_defs Let_def dec.simps)
  have a: "(auctionState (state_of (run init demo_queued)))
             \<lparr> currentLot := Some lot12, currentBid := 50, onlineBids := [] \<rparr> =
           \<lparr> isLive = True, currentLot = Some lot12, currentBid = 50, bidIncrement = 5,
             onlineBids = [], connectedClients = \<lparr> n_bidders = 1, n_clerks = 1 \<rparr> \<rparr>"
    by (simp add: demo_queued_def lot12_def demo_defs handler_defs Let_def dec.simps)
  show ?thesis
    using setLot_replaces_lot [OF clerk, of lot12 50] q by (simp add: a)
qed

section \<open>Roles of a connection\<close>

text \<open>
  C9, as stated, fails: a socket that registers as bidder and then as clerk is in
  both registries.
\<close>

theorem both_roles_counterexample:
  "js_has ''x1'' (bidders (connectedSockets (state_of (run init demo_both_roles))))
   \<and> js_has ''x1'' (clerks (connectedSockets (state_of (run init demo_both_roles))))"
  by (simp add: demo_both_roles_def demo_defs handler_defs Let_def)

text \<open>
  C9, as amended: the two registries are independent. Registering a socket under
  one role stores the given identity under that role and leaves the registry of the
  other role as it was, so a socket that held the other role holds both afterwards;
  the entries of other sockets are untouched. Registering again under a role the
  socket already holds replaces its entry and keeps the registry's keys, and in
  every state reached from the initial one the role count is the same as before.
\<close>

theorem roles_are_independent:
  "js_get sock (clerks (connectedSockets (state_of (on_register_clerk s sock i n)))) =
       Some \<lparr> conn_clerkId = i, clerk_name = n \<rparr>
   \<and> bidders (connectedSockets (state_of (on_register_clerk s sock i n))) =
       bidders (connectedSockets s)
   \<and> js_get sock (bidders (connectedSockets (state_of (on_register_bidder s sock i n)))) =
       Some \<lparr> conn_bidderId = i, conn_name = n \<rparr>
   \<and> clerks (connectedSockets (state_of (on_register_bidder s sock i n))) =
       clerks (connectedSockets s)
   \<and> (k \<noteq> sock \<longrightarrow>
        js_get k (bidders (connectedSockets (state_of (on_register_bidder s sock i n)))) =
          js_get k (bidders (connectedSockets s)) \<and>
        js_get k (clerks (connectedSockets (state_of (on_register_clerk s sock i n)))) =
          js_get k (clerks (connectedSockets s)))
   \<and> (js_has sock (bidders (connectedSockets s)) \<longrightarrow>
        map fst (bidders (connectedSockets (state_of (on_register_bidder s sock i n)))) =
          map fst (bidders (connectedSockets s)))
   \<and> (js_has sock (clerks (connectedSockets s)) \<longrightarrow>
        map fst (clerks (connectedSockets (state_of (on_register_clerk s sock i n)))) =
          map fst (clerks (connectedSockets s)))
   \<and> (js_has sock (bidders (connectedSockets (state_of (run init ins)))) \<longrightarrow>
        n_bidders (connectedClients (auctionState
          (state_of (on_register_bidder (state_of (run init ins)) sock i n)))) =
        n_bidders (connectedClients (auctionState (state_of (run init ins)))))
   \<and> (js_has sock (clerks (connectedSockets (state_of (run init ins)))) \<longrightarrow>
        n_clerks (connectedClients (auctionState
          (state_of (on_register_clerk (state_of (run init ins)) sock i n)))) =
        n_clerks (connectedClients (auctionState (state_of (run init ins)))))"
proof -
  have regs: "js_get sock (clerks (connectedSockets (state_of (on_register_clerk s sock i n)))) =
       Some \<lparr> conn_clerkId = i, clerk_name = n \<rparr>
     \<and> bidders (connectedSockets (state_of (on_register_clerk s sock i n))) =
       bidders (connectedSockets s)
     \<and> js_get sock (bidders (connectedSockets (state_of (on_register_bidder s sock i n)))) =
       Some \<lparr> conn_bidderId = i, conn_name = n \<rparr>
     \<and> clerks (connectedSockets (state_of (on_register_bidder s sock i n))) =
       clerks (connectedSockets s)"
    by (simp add: on_register_bidder_def on_register_clerk_def Let_def js_get_def map_of_js_set)
  have others: "k \<noteq> sock \<longrightarrow>
        js_get k (bidders (connectedSockets (state_of (on_register_bidder s sock i n)))) =
          js_get k (bidders (connectedSockets s)) \<and>
        js_get k (clerks (connectedSockets (state_of (on_register_clerk s sock i n)))) =
          js_get k (clerks (connectedSockets s))"
    by (simp add: on_register_bidder_def on_register_clerk_def Let_def js_get_def map_of_js_set)
  have keys_b: "js_has sock (bidders (connectedSockets s)) \<longrightarrow>
        map fst (bidders (connectedSockets (state_of (on_register_bidder s sock i n)))) =
          map fst (bidders (connectedSockets s))"
    by (simp add: on_register_bidder_def Let_def js_has_def keys_js_set_present)
  have keys_c: "js_has sock (clerks (connectedSockets s)) \<longrightarrow>
        map fst (clerks (connectedSockets (state_of (on_register_clerk s sock i n)))) =
          map fst (clerks (connectedSockets s))"
    by (simp add: on_register_clerk_def Let_def js_has_def keys_js_set_present)
  let ?r = "state_of (run init ins)"
  have inv: "counts_agree ?r" by (rule reachable_counts_agree)
  have count_b: "js_has sock (bidders (connectedSockets ?r)) \<longrightarrow>
        n_bidders (connectedClients (auctionState (state_of (on_register_bidder ?r sock i n)))) =
        n_bidders (connectedClients (auctionState ?r))"
    using inv
    by (simp add: counts_agree_def on_register_bidder_def Let_def js_has_def js_size_def
        length_js_set_present)
  have count_c: "js_has sock (clerks (connectedSockets ?r)) \<longrightarrow>
        n_clerks (connectedClients (auctionState (state_of (on_register_clerk ?r sock i n)))) =
        n_clerks (connectedClients (auctionState ?r))"
    using inv
    by (simp add: counts_agree_def on_register_clerk_def Let_def js_has_def js_size_def
        length_js_set_present)
  from regs others keys_b keys_c count_b count_c show ?thesis by blast
qed

theorem roles_are_independent_witness:
  "js_get ''b1'' (clerks (connectedSockets (state_of
       (on_register_clerk (state_of (run init demo_bidder_turns_clerk)) ''b1'' ''k3'' ''Ann B'')))) =
     Some \<lparr> conn_clerkId = ''k3'', clerk_name = ''Ann B'' \<rparr>
   \<and> bidders (connectedSockets (state_of
       (on_register_clerk (state_of (run init demo_bidder_turns_clerk)) ''b1'' ''k3'' ''Ann B''))) =
     [(''b1'', \<lparr> conn_bidderId = ''7'', conn_name = ''Ann'' \<rparr>)]
   \<and> js_get ''b1'' (bidders (connectedSockets (state_of
       (on_register_bidder (state_of (run init demo_bidder_turns_clerk)) ''b1'' ''k3'' ''Ann B'')))) =
     Some \<lparr> conn_bidderId = ''k3'', conn_name = ''Ann B'' \<rparr>
   \<and> js_get ''c1'' (clerks (connectedSockets (state_of
       (on_register_clerk (state_of (run init demo_bidder_turns_clerk)) ''b1'' ''k3'' ''Ann B'')))) =
     Some \<lparr> conn_clerkId = ''k1'', clerk_name = ''Kim'' \<rparr>
   \<and> map fst (bidders (connectedSockets (state_of
       (on_register_bidder (state_of (run init demo_bidder_turns_clerk)) ''b1'' ''k3'' ''Ann B'')))) =
     [''b1'']
   \<and> map fst (clerks (connectedSockets (state_of
       (on_register_clerk (state_of (run init demo_bidder_turns_clerk)) ''b1'' ''k3'' ''Ann B'')))) =
     [''c1'', ''b1'']
   \<and> n_bidders (connectedClients (auctionState (state_of
       (on_register_bidder (state_of (run init demo_bidder_turns_clerk)) ''b1'' ''k3'' ''Ann B'')))) = 1
   \<and> n_clerks (connectedClients (auctionState (state_of
       (on_register_clerk (state_of (run init demo_bidder_turns_clerk)) ''b1'' ''k3'' ''Ann B'')))) = 2"
proof -
  have s: "state_of (run init demo_bidder_turns_clerk) =
        \<lparr> auctionState =
            \<lparr> isLive = True, currentLot = Some lot11, currentBid = 100, bidIncrement = 5,
              onlineBids = [], connectedClients = \<lparr> n_bidders = 1, n_clerks = 2 \<rparr> \<rparr>,
          connectedSockets =
            \<lparr> bidders = [(''b1'', \<lparr> conn_bidderId = ''7'', conn_name = ''Ann'' \<rparr>)],
              clerks = [(''c1'', \<lparr> conn_clerkId = ''k1'', clerk_name = ''Kim'' \<rparr>),
                        (''b1'', \<lparr> conn_clerkId = ''k2'', clerk_name = ''Ann'' \<rparr>)] \<rparr> \<rparr>"
    by (simp add: demo_bidder_turns_clerk_def demo_defs handler_defs Let_def)
  have b: "js_has ''b1'' (bidders (connectedSockets (state_of (run init demo_bidder_turns_clerk))))"
    by (simp add: s js_has_def)
  have c: "js_has ''b1'' (clerks (connectedSockets (state_of (run init demo_bidder_turns_clerk))))"
    by (simp add: s js_has_def)
  have other: "''c1'' \<noteq> ''b1''" by simp
  have k: "js_get ''c1'' (clerks (connectedSockets (state_of (run init demo_bidder_turns_clerk)))) =
             Some \<lparr> conn_clerkId = ''k1'', clerk_name = ''Kim'' \<rparr>"
    by (simp add: s js_get_def)
  have bs: "bidders (connectedSockets (state_of (run init demo_bidder_turns_clerk))) =
              [(''b1'', \<lparr> conn_bidderId = ''7'', conn_name = ''Ann'' \<rparr>)]"
    by (simp add: s)
  have kb: "map fst (bidders (connectedSockets (state_of (run init demo_bidder_turns_clerk)))) = [''b1'']"
    by (simp add: s)
  have kc: "map fst (clerks (connectedSockets (state_of (run init demo_bidder_turns_clerk)))) =
              [''c1'', ''b1'']"
    by (simp add: s)
  have nb: "n_bidders (connectedClients (auctionState (state_of (run init demo_bidder_turns_clerk)))) = 1"
    by (simp add: s)
  have nc: "n_clerks (connectedClients (auctionState (state_of (run init demo_bidder_turns_clerk)))) = 2"
    by (simp add: s)
  show ?thesis
    using roles_are_independent [where s = "state_of (run init demo_bidder_turns_clerk)"
        and ins = demo_bidder_turns_clerk and sock = "''b1''" and i = "''k3''" and n = "''Ann B''"
        and k = "''c1''"] b c other
    by (simp only: k bs kb kc nb nc) simp
qed

section \<open>Accepting the bid of a bidder who left\<close>




end
